theory Spec2Isabelle
  imports Main "HOL-Library.AList"
begin

section \<open>Messages, errors and token payloads\<close>

text \<open>
  The keys of \<open>USERS_MESSAGES\<close> (constants/messages) that users.middlewares.ts names.
  The texts behind the keys are not part of the sources, so a message is identified by
  its key; a text made by a library (the message of a jsonwebtoken error) is a \<open>Text\<close>.
\<close>

datatype USERS_MESSAGES =
    EMAIL_INVALID
  | EMAIL_IS_REQUIRED
  | EMAIL_OR_PASSWORD_INCORRECT
  | EMAIL_ALREADY_EXISTS
  | PASSWORD_MUST_BE_STRING
  | PASSWORD_IS_REQUIRED
  | PASSWORD_LENGTH
  | PASSWORD_MUST_BE_STRONG
  | NAME_MUST_BE_STRING
  | NAME_IS_REQUIRED
  | NAME_LENGTH
  | CONFIRM_PASSWORD_MUST_BE_STRING
  | CONFIRM_PASSWORD_IS_REQUIRED
  | CONFIRM_PASSWORD_LENGTH
  | CONFIRM_PASSWORD_MUST_BE_STRONG
  | CONFIRM_PASSWORD_NOT_MATCH
  | DATE_OF_BIRTH_MUST_BE_ISO8061
  | ACCESS_TOKEN_IS_REQUIRED
  | REFRESH_TOKEN_IS_REQUIRED
  | REFRESH_TOKEN_IS_USED_OR_NOT_EXIST
  | REFRESH_TOKEN_INVALID
  | EMAIL_VERIFY_TOKEN_IS_REQUIRED
  | USER_NOT_FOUND
  | FORGOT_PASSWORD_TOKEN_IS_REQUIRED
  | FORGOT_PASSWORD_TOKEN_IS_INVALID

datatype message = Msg USERS_MESSAGES | Text string

text \<open>
  Modelled from the spec: constants/httpStatus is not part of the sources; the spec gives
  the status of every token rejection as HTTP 401.
\<close>

abbreviation UNAUTHORIZED :: nat where
  "UNAUTHORIZED \<equiv> 401"

text \<open>
  What a validator callback can throw. \<open>ErrorWithStatus\<close> (models/Errors, not part of the
  sources) is built from a message and an HTTP status, as its calls in
  users.middlewares.ts show; \<open>JsonWebTokenError\<close> is the error class of the jsonwebtoken
  library that the catch blocks test with \<open>instanceof\<close>, and stands for its subclasses
  too; \<open>Error\<close> stands for every other JavaScript error.
\<close>

datatype exn =
    Error message
  | ErrorWithStatus message nat
  | JsonWebTokenError message

definition message_of :: "exn \<Rightarrow> message" where
  "message_of e = (case e of Error m \<Rightarrow> m | ErrorWithStatus m s \<Rightarrow> m | JsonWebTokenError m \<Rightarrow> m)"

text \<open>
  Modelled from the spec: constants/enum is not part of the sources; the spec lists the
  four token kinds.
\<close>

datatype TokenType = AccessToken | RefreshToken | EmailVerifyToken | ForgotPasswordToken

text \<open>\<open>TokenPayload\<close> of models/requests/Users.requests.ts, with the issued-at and
  expiry fields it inherits from \<open>JwtPayload\<close>.\<close>

record TokenPayload =
  user_id :: string
  token_type :: TokenType
  iat :: nat
  exp :: nat

section \<open>The credential store\<close>

text \<open>
  Modelled from the spec: the user and refresh-token schemas and
  services/database.services are not part of the sources. The spec's data model gives a
  user an identifier, name, email, password hash, date of birth, verification status and
  the two nullable stored tokens, and a refresh token its string and owner. A collection
  is the list of its documents.
\<close>

datatype UserVerifyStatus = Unverified | Verified | Banned

record User =
  oid :: string
  name :: string
  email :: string
  password :: string
  date_of_birth :: string
  status :: UserVerifyStatus
  email_verify_token :: "string option"
  forgot_password_token :: "string option"

record RefreshToken =
  token :: string
  owner :: string

record database =
  users :: "User list"
  refreshTokens :: "RefreshToken list"

text \<open>
  \<open>databaseService.users\<close> and \<open>databaseService.refreshTokens\<close> are the two collections;
  \<open>findOne\<close> of the MongoDB driver returns a document that matches the filter, or null,
  and writes nothing. The store is threaded through every call all the same, so that
  what a validator does to it is a fact to prove, not a convention.
\<close>

definition users_findOne :: "(User \<Rightarrow> bool) \<Rightarrow> database \<Rightarrow> User option \<times> database" where
  "users_findOne flt db = (find flt (users db), db)"

definition refreshTokens_findOne ::
  "(RefreshToken \<Rightarrow> bool) \<Rightarrow> database \<Rightarrow> RefreshToken option \<times> database" where
  "refreshTokens_findOne flt db = (find flt (refreshTokens db), db)"

text \<open>
  Modelled from the spec: \<open>userService.checkEmailExist\<close> (services/users.services) is not
  part of the sources; the spec's \<open>findUserByEmail\<close> is an exact-match lookup by email.
\<close>

definition checkEmailExist :: "string \<Rightarrow> database \<Rightarrow> bool \<times> database" where
  "checkEmailExist e db =
     (case users_findOne (\<lambda>u. email u = e) db of
        (None, db') \<Rightarrow> (False, db')
      | (Some u, db') \<Rightarrow> (True, db'))"

section \<open>Requests and the collaborators of the validators\<close>

text \<open>
  An Express request: its headers (keyed by lower-case name) and body fields, and the
  context fields the validators attach. A field is a string or absent; request bodies
  with other JSON values are outside the model.
\<close>

record Request =
  headers :: "(string \<times> string) list"
  body :: "(string \<times> string) list"
  user :: "User option"
  decoded_authorization :: "TokenPayload option"
  decoded_refresh_token :: "TokenPayload option"
  decoded_email_verify_token :: "TokenPayload option"

record StrongPasswordOptions =
  minLength :: nat
  minLowercase :: nat
  minUppercase :: nat
  minNumbers :: nat
  minSymbols :: nat

text \<open>
  The functions the validators call whose code is not in the sources, taken as
  parameters: \<open>hashPassword\<close> (utils/crypto, applied to \<open>req.body.password\<close> as it is,
  absent or not), \<open>verifyToken\<close> (utils/jwt: token and secret to the decoded payload, or
  the error it rejects with), the constructor \<open>ObjectId\<close> of the mongodb driver (throws
  on a malformed identifier), the predicates of validator.js behind the schema keys
  \<open>isEmail\<close>, \<open>isStrongPassword\<close> and \<open>isISO8601\<close>, and the four secrets of the process
  environment.
\<close>

record deps =
  hashPassword :: "string option \<Rightarrow> string"
  verifyToken :: "string \<Rightarrow> string \<Rightarrow> exn + TokenPayload"
  ObjectId :: "string \<Rightarrow> exn + string"
  validator_isEmail :: "string \<Rightarrow> bool"
  validator_isStrongPassword :: "StrongPasswordOptions \<Rightarrow> string \<Rightarrow> bool"
  validator_isISO8601 :: "bool \<Rightarrow> bool \<Rightarrow> string \<Rightarrow> bool"
  JWT_SECRET_ACCESS_TOKEN :: string
  JWT_SECRET_REFRESH_TOKEN :: string
  JWT_SECRET_EMAIL_VERIFY_TOKEN :: string
  JWT_SECRET_FORGOT_PASSWORD_TOKEN :: string

section \<open>Strings as JavaScript handles them\<close>

text \<open>
  A field value is a string or \<open>undefined\<close> (\<open>None\<close>). express-validator turns the value
  into a string before a standard validator or sanitizer sees it; \<open>undefined\<close> becomes
  the empty string. The same function gives JavaScript's truthiness of such a value:
  \<open>!value\<close> holds exactly when \<open>toString value\<close> is empty.
\<close>

type_synonym jsvalue = "string option"

definition toString :: "jsvalue \<Rightarrow> string" where
  "toString v = (case v of None \<Rightarrow> [] | Some s \<Rightarrow> s)"

text \<open>The whitespace that \<open>trim\<close> of validator.js strips, for strings of ASCII characters:
  space, tab, line feed, vertical tab, form feed and carriage return.\<close>

definition isspace :: "char \<Rightarrow> bool" where
  "isspace c = (c \<in> set [CHR '' '', CHR 0x09, CHR 0x0A, CHR 0x0B, CHR 0x0C, CHR 0x0D])"

definition str_trim :: "string \<Rightarrow> string" where
  "str_trim s = rev (dropWhile isspace (rev (dropWhile isspace s)))"

text \<open>\<open>String.prototype.split\<close> with a separator of one character: every occurrence of
  the separator ends a piece, so two separators in a row give an empty piece.\<close>

fun split_on :: "char \<Rightarrow> string \<Rightarrow> string list" where
  "split_on sep [] = [[]]"
| "split_on sep (c # cs) =
     (if c = sep then [] # split_on sep cs
      else (case split_on sep cs of
              [] \<Rightarrow> [[c]]
            | w # ws \<Rightarrow> (c # w) # ws))"

text \<open>Indexing an array: \<open>undefined\<close> past its end.\<close>

definition at_index :: "string list \<Rightarrow> nat \<Rightarrow> jsvalue" where
  "at_index xs i = (if i < length xs then Some (xs ! i) else None)"

definition lower_char :: "char \<Rightarrow> char" where
  "lower_char c =
     (case map_of (zip ''ABCDEFGHIJKLMNOPQRSTUVWXYZ'' ''abcdefghijklmnopqrstuvwxyz'') c of
        None \<Rightarrow> c
      | Some d \<Rightarrow> d)"

definition toLowerCase :: "string \<Rightarrow> string" where
  "toLowerCase s = map lower_char s"

section \<open>Running a schema\<close>

text \<open>
  \<open>checkSchema\<close> of express-validator takes the schema as data: per field, the checks in
  the order of their keys. A standard validator records its \<open>errorMessage\<close> when the
  stringified value fails it; \<open>trim\<close> replaces the value (also on the request); a
  \<open>custom\<close> callback records what it throws. No check of this file bails, so every check
  of every field runs and the errors are kept in declaration order.
\<close>

datatype location = Body | Headers

text \<open>What express-validator keeps as the \<open>msg\<close> of a recorded error: the message text
  of a thrown \<open>Error\<close>, and a thrown object of another class, here an \<open>ErrorWithStatus\<close>,
  as it is.\<close>

datatype error_msg = Plain message | WithStatus message nat

definition recorded :: "exn \<Rightarrow> error_msg" where
  "recorded e =
     (case e of
        Error m \<Rightarrow> Plain m
      | JsonWebTokenError m \<Rightarrow> Plain m
      | ErrorWithStatus m s \<Rightarrow> WithStatus m s)"

text \<open>A recorded error: the schema key of the field that failed, and the \<open>msg\<close>.\<close>

type_synonym ValidationError = "string \<times> error_msg"

type_synonym custom_fn = "jsvalue \<Rightarrow> Request \<Rightarrow> database \<Rightarrow> (exn + Request) \<times> database"

datatype check =
    isEmail message
  | notEmpty message
  | isString message
  | isLength nat nat message
  | isStrongPassword StrongPasswordOptions message
  | isISO8601 bool bool message
  | trim
  | custom custom_fn

type_synonym schema = "(string \<times> check list) list"

definition select_field :: "location \<Rightarrow> string \<Rightarrow> Request \<Rightarrow> jsvalue" where
  "select_field loc f req =
     (case loc of
        Body \<Rightarrow> map_of (body req) f
      | Headers \<Rightarrow> map_of (headers req) (toLowerCase f))"

definition assign_field :: "location \<Rightarrow> string \<Rightarrow> string \<Rightarrow> Request \<Rightarrow> Request" where
  "assign_field loc f s req =
     (case loc of
        Body \<Rightarrow> req\<lparr>body := AList.update f s (body req)\<rparr>
      | Headers \<Rightarrow> req\<lparr>headers := AList.update (toLowerCase f) s (headers req)\<rparr>)"

definition failed :: "bool \<Rightarrow> string \<Rightarrow> message \<Rightarrow> ValidationError list" where
  "failed ok f m = (if ok then [] else [(f, Plain m)])"

fun run_item ::
  "deps \<Rightarrow> location \<Rightarrow> string \<Rightarrow> check \<Rightarrow> jsvalue \<Rightarrow> Request \<Rightarrow> database
     \<Rightarrow> jsvalue \<times> ValidationError list \<times> Request \<times> database" where
  "run_item D loc f (isEmail m) v req db =
     (v, failed (validator_isEmail D (toString v)) f m, req, db)"
| "run_item D loc f (notEmpty m) v req db =
     (v, failed (toString v \<noteq> []) f m, req, db)"
| "run_item D loc f (isString m) v req db =
     (v, failed (v \<noteq> None) f m, req, db)"
| "run_item D loc f (isLength lo hi m) v req db =
     (v, failed (lo \<le> length (toString v) \<and> length (toString v) \<le> hi) f m, req, db)"
| "run_item D loc f (isStrongPassword opts m) v req db =
     (v, failed (validator_isStrongPassword D opts (toString v)) f m, req, db)"
| "run_item D loc f (isISO8601 strict strictSeparator m) v req db =
     (v, failed (validator_isISO8601 D strict strictSeparator (toString v)) f m, req, db)"
| "run_item D loc f trim v req db =
     (Some (str_trim (toString v)), [], assign_field loc f (str_trim (toString v)) req, db)"
| "run_item D loc f (custom g) v req db =
     (case g v req db of
        (Inl e, db') \<Rightarrow> (v, [(f, recorded e)], req, db')
      | (Inr req', db') \<Rightarrow> (v, [], req', db'))"

fun run_chain ::
  "deps \<Rightarrow> location \<Rightarrow> string \<Rightarrow> check list \<Rightarrow> jsvalue \<Rightarrow> Request \<Rightarrow> database
     \<Rightarrow> ValidationError list \<times> Request \<times> database" where
  "run_chain D loc f [] v req db = ([], req, db)"
| "run_chain D loc f (c # cs) v req db =
     (case run_item D loc f c v req db of
        (v', es, req', db') \<Rightarrow>
          (case run_chain D loc f cs v' req' db' of
             (es', req'', db'') \<Rightarrow> (es @ es', req'', db'')))"

fun run_fields ::
  "deps \<Rightarrow> location \<Rightarrow> schema \<Rightarrow> Request \<Rightarrow> database
     \<Rightarrow> ValidationError list \<times> Request \<times> database" where
  "run_fields D loc [] req db = ([], req, db)"
| "run_fields D loc ((f, cs) # sch) req db =
     (case run_chain D loc f cs (select_field loc f req) req db of
        (es, req', db') \<Rightarrow>
          (case run_fields D loc sch req' db' of
             (es', req'', db'') \<Rightarrow> (es @ es', req'', db'')))"

text \<open>Every schema of the file names one location, \<open>["body"]\<close> or \<open>["headers"]\<close>.\<close>

definition checkSchema ::
  "deps \<Rightarrow> schema \<Rightarrow> location \<Rightarrow> Request \<Rightarrow> database
     \<Rightarrow> ValidationError list \<times> Request \<times> database" where
  "checkSchema D sch loc req db = run_fields D loc sch req db"

text \<open>
  Modelled from the spec: \<open>validate\<close> (utils/validation) is not part of the sources. By the
  spec the validation pipeline runs before the handler and, when a check failed, answers
  with a structured error keyed by field name and message instead of calling the handler.
  The model keeps every recorded error, in declaration order: the first failing field's
  error is the head of the list.
\<close>

datatype outcome = Next | Rejected "ValidationError list"

definition validate ::
  "(Request \<Rightarrow> database \<Rightarrow> ValidationError list \<times> Request \<times> database)
     \<Rightarrow> Request \<Rightarrow> database \<Rightarrow> outcome \<times> Request \<times> database" where
  "validate validation req db =
     (case validation req db of
        (es, req', db') \<Rightarrow> ((case es of [] \<Rightarrow> Next | e # es' \<Rightarrow> Rejected es), req', db'))"

definition errors_of :: "outcome \<Rightarrow> ValidationError list" where
  "errors_of r = (case r of Next \<Rightarrow> [] | Rejected es \<Rightarrow> es)"

section \<open>The validators of users.middlewares.ts\<close>

subsection \<open>loginValidator\<close>

definition loginValidator_email_custom :: "deps \<Rightarrow> custom_fn" where
  "loginValidator_email_custom D v req db =
     (case users_findOne
             (\<lambda>u. Some (email u) = v \<and> password u = hashPassword D (map_of (body req) ''password''))
             db of
        (None, db') \<Rightarrow> (Inl (Error (Msg EMAIL_OR_PASSWORD_INCORRECT)), db')
      | (Some u, db') \<Rightarrow> (Inr (req\<lparr>user := Some u\<rparr>), db'))"

definition strong_options :: StrongPasswordOptions where
  "strong_options =
     \<lparr>minLength = 6, minLowercase = 1, minUppercase = 1, minNumbers = 1, minSymbols = 1\<rparr>"

definition loginValidator_schema :: "deps \<Rightarrow> schema" where
  "loginValidator_schema D =
     [(''email'',
         [isEmail (Msg EMAIL_INVALID),
          notEmpty (Msg EMAIL_IS_REQUIRED),
          trim,
          custom (loginValidator_email_custom D)]),
      (''password'',
         [isString (Msg PASSWORD_MUST_BE_STRING),
          notEmpty (Msg PASSWORD_IS_REQUIRED),
          isLength 6 50 (Msg PASSWORD_LENGTH),
          isStrongPassword strong_options (Msg PASSWORD_MUST_BE_STRONG)])]"

definition loginValidator :: "deps \<Rightarrow> Request \<Rightarrow> database \<Rightarrow> outcome \<times> Request \<times> database" where
  "loginValidator D = validate (checkSchema D (loginValidator_schema D) Body)"

subsection \<open>registerValidator\<close>

definition registerValidator_email_custom :: "custom_fn" where
  "registerValidator_email_custom v req db =
     (case checkEmailExist (toString v) db of
        (True, db') \<Rightarrow> (Inl (Error (Msg EMAIL_ALREADY_EXISTS)), db')
      | (False, db') \<Rightarrow> (Inr req, db'))"

definition registerValidator_confirm_password_custom :: "custom_fn" where
  "registerValidator_confirm_password_custom v req db =
     (if v \<noteq> map_of (body req) ''password''
      then (Inl (Error (Msg CONFIRM_PASSWORD_NOT_MATCH)), db)
      else (Inr req, db))"

definition registerValidator_schema :: "schema" where
  "registerValidator_schema =
     [(''name'',
         [isString (Msg NAME_MUST_BE_STRING),
          notEmpty (Msg NAME_IS_REQUIRED),
          isLength 1 100 (Msg NAME_LENGTH),
          trim]),
      (''email'',
         [isEmail (Msg EMAIL_INVALID),
          notEmpty (Msg EMAIL_IS_REQUIRED),
          trim,
          custom registerValidator_email_custom]),
      (''password'',
         [isString (Msg PASSWORD_MUST_BE_STRING),
          notEmpty (Msg PASSWORD_IS_REQUIRED),
          isLength 6 50 (Msg PASSWORD_LENGTH),
          isStrongPassword strong_options (Msg PASSWORD_MUST_BE_STRONG)]),
      (''confirm_password'',
         [isString (Msg CONFIRM_PASSWORD_MUST_BE_STRING),
          notEmpty (Msg CONFIRM_PASSWORD_IS_REQUIRED),
          isLength 6 50 (Msg CONFIRM_PASSWORD_LENGTH),
          isStrongPassword strong_options (Msg CONFIRM_PASSWORD_MUST_BE_STRONG),
          custom registerValidator_confirm_password_custom]),
      (''date_of_birth'',
         [isISO8601 True True (Msg DATE_OF_BIRTH_MUST_BE_ISO8061)])]"

definition registerValidator :: "deps \<Rightarrow> Request \<Rightarrow> database \<Rightarrow> outcome \<times> Request \<times> database" where
  "registerValidator D = validate (checkSchema D registerValidator_schema Body)"

subsection \<open>accessTokenValidator\<close>

definition access_token_of :: "jsvalue \<Rightarrow> jsvalue" where
  "access_token_of v = at_index (split_on CHR '' '' (toString v)) 1"

definition accessTokenValidator_custom :: "deps \<Rightarrow> custom_fn" where
  "accessTokenValidator_custom D v req db =
     (let access_token = access_token_of v in
      if toString access_token = []
      then (Inl (ErrorWithStatus (Msg ACCESS_TOKEN_IS_REQUIRED) UNAUTHORIZED), db)
      else
        (case verifyToken D (toString access_token) (JWT_SECRET_ACCESS_TOKEN D) of
           Inr decoded \<Rightarrow>
             (Inr (req\<lparr>decoded_authorization := Some decoded\<rparr>), db)
         | Inl error \<Rightarrow> (Inl (ErrorWithStatus (message_of error) UNAUTHORIZED), db)))"

definition accessTokenValidator ::
  "deps \<Rightarrow> Request \<Rightarrow> database \<Rightarrow> outcome \<times> Request \<times> database" where
  "accessTokenValidator D =
     validate (checkSchema D
       [(''Authorization'', [trim, custom (accessTokenValidator_custom D)])] Headers)"

subsection \<open>refreshTokenValidator\<close>

text \<open>\<open>Promise.all\<close> starts the verification and the lookup together and rejects with the
  verification's error when that fails, whatever the lookup finds; the error thrown
  inside the \<open>try\<close> for a missing token passes through the \<open>catch\<close>, which rethrows
  what is not a \<open>JsonWebTokenError\<close>.\<close>

definition refreshTokenValidator_custom :: "deps \<Rightarrow> custom_fn" where
  "refreshTokenValidator_custom D v req db =
     (if toString v = []
      then (Inl (ErrorWithStatus (Msg REFRESH_TOKEN_IS_REQUIRED) UNAUTHORIZED), db)
      else
        (case refreshTokens_findOne (\<lambda>t. token t = toString v) db of
           (refresh_token, db') \<Rightarrow>
             (case verifyToken D (toString v) (JWT_SECRET_REFRESH_TOKEN D) of
                Inl error \<Rightarrow>
                  (case error of
                     JsonWebTokenError m \<Rightarrow>
                       (Inl (ErrorWithStatus (Msg REFRESH_TOKEN_INVALID) UNAUTHORIZED), db')
                   | Error m \<Rightarrow> (Inl error, db')
                   | ErrorWithStatus m s \<Rightarrow> (Inl error, db'))
              | Inr decoded \<Rightarrow>
                  (case refresh_token of
                     None \<Rightarrow>
                       (Inl (ErrorWithStatus (Msg REFRESH_TOKEN_IS_USED_OR_NOT_EXIST) UNAUTHORIZED),
                        db')
                   | Some t \<Rightarrow>
                       (Inr (req\<lparr>decoded_refresh_token := Some decoded\<rparr>), db')))))"

definition refreshTokenValidator ::
  "deps \<Rightarrow> Request \<Rightarrow> database \<Rightarrow> outcome \<times> Request \<times> database" where
  "refreshTokenValidator D =
     validate (checkSchema D
       [(''refresh_token'', [trim, custom (refreshTokenValidator_custom D)])] Body)"

subsection \<open>emailVerifyTokenValidator\<close>

definition emailVerifyTokenValidator_custom :: "deps \<Rightarrow> custom_fn" where
  "emailVerifyTokenValidator_custom D v req db =
     (if toString v = []
      then (Inl (ErrorWithStatus (Msg EMAIL_VERIFY_TOKEN_IS_REQUIRED) UNAUTHORIZED), db)
      else
        (case verifyToken D (toString v) (JWT_SECRET_EMAIL_VERIFY_TOKEN D) of
           Inl error \<Rightarrow>
             (case error of
                JsonWebTokenError m \<Rightarrow>
                  (Inl (ErrorWithStatus (Msg REFRESH_TOKEN_INVALID) UNAUTHORIZED), db)
              | Error m \<Rightarrow> (Inl error, db)
              | ErrorWithStatus m s \<Rightarrow> (Inl error, db))
         | Inr decoded \<Rightarrow>
             (Inr (req\<lparr>decoded_email_verify_token := Some decoded\<rparr>), db)))"

definition emailVerifyTokenValidator ::
  "deps \<Rightarrow> Request \<Rightarrow> database \<Rightarrow> outcome \<times> Request \<times> database" where
  "emailVerifyTokenValidator D =
     validate (checkSchema D
       [(''email_verify_token'', [trim, custom (emailVerifyTokenValidator_custom D)])] Body)"

subsection \<open>forgotPassWordValidator\<close>

definition forgotPassWordValidator_email_custom :: "custom_fn" where
  "forgotPassWordValidator_email_custom v req db =
     (case users_findOne (\<lambda>u. Some (email u) = v) db of
        (None, db') \<Rightarrow> (Inl (Error (Msg USER_NOT_FOUND)), db')
      | (Some u, db') \<Rightarrow> (Inr (req\<lparr>user := Some u\<rparr>), db'))"

definition forgotPassWordValidator ::
  "deps \<Rightarrow> Request \<Rightarrow> database \<Rightarrow> outcome \<times> Request \<times> database" where
  "forgotPassWordValidator D =
     validate (checkSchema D
       [(''email'',
           [isEmail (Msg EMAIL_INVALID),
            notEmpty (Msg EMAIL_IS_REQUIRED),
            trim,
            custom forgotPassWordValidator_email_custom])] Body)"

subsection \<open>verifyForgotPasswordTokenValidator\<close>

definition verifyForgotPasswordTokenValidator_custom :: "deps \<Rightarrow> custom_fn" where
  "verifyForgotPasswordTokenValidator_custom D v req db =
     (if toString v = []
      then (Inl (ErrorWithStatus (Msg FORGOT_PASSWORD_TOKEN_IS_REQUIRED) UNAUTHORIZED), db)
      else
        (case verifyToken D (toString v) (JWT_SECRET_FORGOT_PASSWORD_TOKEN D) of
           Inl error \<Rightarrow>
             (case error of
                JsonWebTokenError m \<Rightarrow>
                  (Inl (ErrorWithStatus (Msg REFRESH_TOKEN_INVALID) UNAUTHORIZED), db)
              | Error m \<Rightarrow> (Inl error, db)
              | ErrorWithStatus m s \<Rightarrow> (Inl error, db))
         | Inr decoded \<Rightarrow>
             (case ObjectId D (user_id decoded) of
                Inl error \<Rightarrow>
                  (case error of
                     JsonWebTokenError m \<Rightarrow>
                       (Inl (ErrorWithStatus (Msg REFRESH_TOKEN_INVALID) UNAUTHORIZED), db)
                   | Error m \<Rightarrow> (Inl error, db)
                   | ErrorWithStatus m s \<Rightarrow> (Inl error, db))
              | Inr i \<Rightarrow>
                  (case users_findOne (\<lambda>u. oid u = i) db of
                     (None, db') \<Rightarrow>
                       (Inl (ErrorWithStatus (Msg USER_NOT_FOUND) UNAUTHORIZED), db')
                   | (Some u, db') \<Rightarrow>
                       (if forgot_password_token u \<noteq> v
                        then (Inl (ErrorWithStatus (Msg FORGOT_PASSWORD_TOKEN_IS_INVALID)
                                     UNAUTHORIZED), db')
                        else (Inr req, db'))))))"

definition verifyForgotPasswordTokenValidator ::
  "deps \<Rightarrow> Request \<Rightarrow> database \<Rightarrow> outcome \<times> Request \<times> database" where
  "verifyForgotPasswordTokenValidator D =
     validate (checkSchema D
       [(''forgot_password_token'',
           [trim, custom (verifyForgotPasswordTokenValidator_custom D)])] Body)"

section \<open>Notions used to state the properties\<close>

text \<open>The value of a field as a callback placed after \<open>trim\<close> receives it.\<close>

definition sanitized :: "location \<Rightarrow> string \<Rightarrow> Request \<Rightarrow> string" where
  "sanitized loc f req = str_trim (toString (select_field loc f req))"

text \<open>The tokens of a refresh-token collection.\<close>

definition stored_tokens :: "database \<Rightarrow> string list" where
  "stored_tokens db = map token (refreshTokens db)"

text \<open>
  The chunks of a string separated by whitespace, as the words of a line are read: a run
  of whitespace separates two chunks, and no chunk is empty. This follows the wording
  ``whitespace-separated chunk'', to be compared with what \<open>split(" ")[1]\<close> yields.
\<close>

fun split_where :: "(char \<Rightarrow> bool) \<Rightarrow> string \<Rightarrow> string list" where
  "split_where p [] = [[]]"
| "split_where p (c # cs) =
     (if p c then [] # split_where p cs
      else (case split_where p cs of
              [] \<Rightarrow> [[c]]
            | w # ws \<Rightarrow> (c # w) # ws))"

definition ws_chunks :: "string \<Rightarrow> string list" where
  "ws_chunks s = filter (\<lambda>w. w \<noteq> []) (split_where isspace s)"

text \<open>
  Modelled from the spec: the TokenCodec, whose code (utils/jwt and the jsonwebtoken
  library) is not part of the sources. By the spec, \<open>verify(token, secret)\<close> gives the
  payload of a token issued under that secret and fails with a malformed, an
  invalid-signature or an expired error otherwise. The signature scheme is idealised:
  \<open>signed tok = Some (s, p)\<close> says that the token string \<open>tok\<close> was issued under the
  secret \<open>s\<close> with the payload \<open>p\<close>, and a token string has one issuer. The three
  failures are \<open>JsonWebTokenError\<close>s, as the error classes of jsonwebtoken are.
\<close>

type_synonym signing = "string \<Rightarrow> (string \<times> TokenPayload) option"

definition verify :: "signing \<Rightarrow> nat \<Rightarrow> string \<Rightarrow> string \<Rightarrow> exn + TokenPayload" where
  "verify signed now tok secret =
     (case signed tok of
        None \<Rightarrow> Inl (JsonWebTokenError (Text ''jwt malformed''))
      | Some (s, p) \<Rightarrow>
          (if s \<noteq> secret then Inl (JsonWebTokenError (Text ''invalid signature''))
           else if exp p \<le> now then Inl (JsonWebTokenError (Text ''jwt expired''))
           else Inr p))"

subsection \<open>A concrete installation\<close>

text \<open>
  Four distinct secrets, a handful of issued tokens, and a store with two users and two
  refresh tokens; the properties below are run on it. The tokens \<open>rt1\<close> and \<open>rt2\<close> are
  refresh tokens, of which only \<open>rt1\<close> is stored; \<open>xk1\<close> is stored and was issued under the
  refresh secret, but with a payload of kind EmailVerifyToken; \<open>fp1\<close> and \<open>fp2\<close> are
  forgot-password tokens of the first user, whose record holds \<open>fp2\<close>.
\<close>

definition example_payload :: "TokenType \<Rightarrow> TokenPayload" where
  "example_payload k = \<lparr>user_id = ''u1'', token_type = k, iat = 0, exp = 1000\<rparr>"

definition example_signed :: signing where
  "example_signed =
     map_of
       [(''at1'', (''as'', example_payload AccessToken)),
        (''rt1'', (''rs'', example_payload RefreshToken)),
        (''rt2'', (''rs'', example_payload RefreshToken)),
        (''xk1'', (''rs'', example_payload EmailVerifyToken)),
        (''ev1'', (''es'', example_payload EmailVerifyToken)),
        (''fp1'', (''fs'', example_payload ForgotPasswordToken)),
        (''fp2'', (''fs'', example_payload ForgotPasswordToken))]"

definition example_deps :: deps where
  "example_deps =
     \<lparr>hashPassword = (\<lambda>p. ''h:'' @ toString p),
      verifyToken = verify example_signed 100,
      ObjectId = (\<lambda>s. if s = [] then Inl (Error (Text ''BSONError'')) else Inr s),
      validator_isEmail = (\<lambda>s. CHR ''@'' \<in> set s \<and> list_all (\<lambda>c. \<not> isspace c) s),
      validator_isStrongPassword = (\<lambda>opts s. minLength opts \<le> length s \<and> CHR ''!'' \<in> set s),
      validator_isISO8601 = (\<lambda>strict strictSeparator s. length s = 10),
      JWT_SECRET_ACCESS_TOKEN = ''as'',
      JWT_SECRET_REFRESH_TOKEN = ''rs'',
      JWT_SECRET_EMAIL_VERIFY_TOKEN = ''es'',
      JWT_SECRET_FORGOT_PASSWORD_TOKEN = ''fs''\<rparr>"

definition example_user :: User where
  "example_user =
     \<lparr>oid = ''u1'', name = ''Ann'', email = ''a@x.com'', password = ''h:Aa1!aaaa'',
      date_of_birth = ''2000-01-01'', status = Unverified,
      email_verify_token = Some ''ev1'', forgot_password_token = Some ''fp2''\<rparr>"

text \<open>A user whose stored hash is that of a password the login schema does not admit.\<close>

definition example_legacy_user :: User where
  "example_legacy_user =
     \<lparr>oid = ''u2'', name = ''Bob'', email = ''b@x.com'', password = ''h:abc'',
      date_of_birth = ''1990-01-01'', status = Verified,
      email_verify_token = None, forgot_password_token = None\<rparr>"

definition example_db :: database where
  "example_db =
     \<lparr>users = [example_user, example_legacy_user],
      refreshTokens = [\<lparr>token = ''rt1'', owner = ''u1''\<rparr>, \<lparr>token = ''xk1'', owner = ''u1''\<rparr>]\<rparr>"

text \<open>A second state of the store, with nothing in it.\<close>

definition empty_db :: database where
  "empty_db = \<lparr>users = [], refreshTokens = []\<rparr>"

definition example_request :: "(string \<times> string) list \<Rightarrow> (string \<times> string) list \<Rightarrow> Request" where
  "example_request hs bs =
     \<lparr>headers = hs, body = bs, user = None, decoded_authorization = None,
      decoded_refresh_token = None, decoded_email_verify_token = None\<rparr>"

section \<open>Evaluation lemmas\<close>

lemmas example_defs =
  example_deps_def example_db_def example_request_def example_signed_def example_payload_def
  example_user_def example_legacy_user_def empty_db_def verify_def

lemmas string_defs =
  sanitized_def select_field_def toString_def str_trim_def isspace_def toLowerCase_def
  lower_char_def stored_tokens_def

text \<open>A schema of one field with the checks \<open>trim\<close> and \<open>custom\<close>, as the four token
  validators have it: the callback runs on the trimmed value, and what it throws is the
  one error of the run.\<close>

lemma validate_trim_custom:
  "validate (checkSchema D [(f, [trim, custom g])] loc) req db =
     (case g (Some (sanitized loc f req)) (assign_field loc f (sanitized loc f req) req) db of
        (Inl e, db') \<Rightarrow> (Rejected [(f, recorded e)], assign_field loc f (sanitized loc f req) req, db')
      | (Inr req', db') \<Rightarrow> (Next, req', db'))"
  by (simp add: validate_def checkSchema_def sanitized_def split: prod.splits sum.splits)

lemma find_token_None:
  "(find (\<lambda>r. token r = t) rs = None) = (t \<notin> set (map token rs))"
  by (induction rs) auto

lemma refreshTokenValidator_eval:
  "fst (refreshTokenValidator D req db) =
     (if sanitized Body ''refresh_token'' req = []
      then Rejected [(''refresh_token'', WithStatus (Msg REFRESH_TOKEN_IS_REQUIRED) UNAUTHORIZED)]
      else
        (case verifyToken D (sanitized Body ''refresh_token'' req) (JWT_SECRET_REFRESH_TOKEN D) of
           Inl e \<Rightarrow>
             (case e of
                JsonWebTokenError m \<Rightarrow>
                  Rejected [(''refresh_token'', WithStatus (Msg REFRESH_TOKEN_INVALID) UNAUTHORIZED)]
              | Error m \<Rightarrow> Rejected [(''refresh_token'', Plain m)]
              | ErrorWithStatus m s \<Rightarrow> Rejected [(''refresh_token'', WithStatus m s)])
         | Inr p \<Rightarrow>
             (if sanitized Body ''refresh_token'' req \<in> set (stored_tokens db) then Next
              else Rejected [(''refresh_token'',
                      WithStatus (Msg REFRESH_TOKEN_IS_USED_OR_NOT_EXIST) UNAUTHORIZED)])))"
proof -
  let ?t = "sanitized Body ''refresh_token'' req"
  show ?thesis
  proof (cases "?t \<in> set (stored_tokens db)")
    case True
    then obtain r where "find (\<lambda>r. token r = ?t) (refreshTokens db) = Some r"
      by (cases "find (\<lambda>r. token r = ?t) (refreshTokens db)")
         (simp_all add: stored_tokens_def find_token_None)
    with True show ?thesis
      by (simp add: refreshTokenValidator_def validate_trim_custom refreshTokenValidator_custom_def
          refreshTokens_findOne_def toString_def recorded_def
          split: sum.splits exn.splits)
  next
    case False
    then have "find (\<lambda>r. token r = ?t) (refreshTokens db) = None"
      by (simp add: stored_tokens_def find_token_None)
    with False show ?thesis
      by (simp add: refreshTokenValidator_def validate_trim_custom refreshTokenValidator_custom_def
          refreshTokens_findOne_def toString_def recorded_def
          split: sum.splits exn.splits)
  qed
qed

lemma refreshTokenValidator_accepted:
  assumes "sanitized Body ''refresh_token'' req \<noteq> []"
    and "verifyToken D (sanitized Body ''refresh_token'' req) (JWT_SECRET_REFRESH_TOKEN D) = Inr p"
    and "sanitized Body ''refresh_token'' req \<in> set (stored_tokens db)"
  shows "refreshTokenValidator D req db =
           (Next,
            (assign_field Body ''refresh_token'' (sanitized Body ''refresh_token'' req) req)
              \<lparr>decoded_refresh_token := Some p\<rparr>,
            db)"
proof -
  let ?t = "sanitized Body ''refresh_token'' req"
  from assms(3) obtain r where "find (\<lambda>r. token r = ?t) (refreshTokens db) = Some r"
    by (cases "find (\<lambda>r. token r = ?t) (refreshTokens db)")
       (simp_all add: stored_tokens_def find_token_None)
  with assms(1,2) show ?thesis
    by (simp add: refreshTokenValidator_def validate_trim_custom refreshTokenValidator_custom_def
        refreshTokens_findOne_def toString_def)
qed

lemma validate_Next: "(fst (validate V req db) = Next) = (fst (V req db) = [])"
  by (simp add: validate_def split: prod.splits list.splits)

lemma errors_of_validate: "errors_of (fst (validate V req db)) = fst (V req db)"
  by (simp add: validate_def errors_of_def split: prod.splits list.splits)

lemma find_Some_member: "find P xs = Some x \<Longrightarrow> x \<in> set xs \<and> P x"
  by (induction xs) (auto split: if_splits)

lemma fst_validate:
  "fst (validate V req db) = (case fst (V req db) of [] \<Rightarrow> Next | e # es \<Rightarrow> Rejected (e # es))"
  by (simp add: validate_def split: prod.splits list.splits)

lemma failed_Nil: "(failed ok f m = []) = ok"
  by (simp add: failed_def)

lemma toString_Some: "toString (Some s) = s"
  by (simp add: toString_def)

text \<open>The store after a run is the store before it, when every callback of the schema
  returns the store it was given.\<close>

lemma run_item_store:
  assumes "\<forall>g. c = custom g \<longrightarrow> (\<forall>v r d. snd (g v r d) = d)"
  shows "snd (snd (snd (run_item D loc f c v req db))) = db"
proof (cases c)
  case (custom g)
  with assms have "snd (g v req db) = db" by simp
  with custom show ?thesis
    by (cases "g v req db") (auto split: sum.splits)
qed simp_all

lemma run_chain_store:
  assumes "\<forall>g. custom g \<in> set cs \<longrightarrow> (\<forall>v r d. snd (g v r d) = d)"
  shows "snd (snd (run_chain D loc f cs v req db)) = db"
  using assms
proof (induction cs arbitrary: v req db)
  case Nil
  then show ?case by simp
next
  case (Cons c cs)
  have item: "snd (snd (snd (run_item D loc f c v req db))) = db"
    using Cons.prems by (intro run_item_store) simp
  obtain v' es req' db' where r: "run_item D loc f c v req db = (v', es, req', db')"
    by (cases "run_item D loc f c v req db") auto
  with item have same: "db' = db" by simp
  have "snd (snd (run_chain D loc f cs v' req' db')) = db'"
    using Cons.prems by (intro Cons.IH) simp
  with same r show ?case
    by (auto split: prod.splits)
qed

lemma run_fields_store:
  assumes "\<forall>f cs g. (f, cs) \<in> set sch \<and> custom g \<in> set cs \<longrightarrow> (\<forall>v r d. snd (g v r d) = d)"
  shows "snd (snd (run_fields D loc sch req db)) = db"
  using assms
proof (induction sch arbitrary: req db)
  case Nil
  then show ?case by simp
next
  case (Cons fc sch)
  obtain f cs where fc: "fc = (f, cs)" by (cases fc)
  have chain: "snd (snd (run_chain D loc f cs (select_field loc f req) req db)) = db"
    using Cons.prems fc by (intro run_chain_store) fastforce
  obtain es req' db' where r: "run_chain D loc f cs (select_field loc f req) req db = (es, req', db')"
    by (cases "run_chain D loc f cs (select_field loc f req) req db") auto
  with chain have same: "db' = db" by simp
  have "snd (snd (run_fields D loc sch req' db')) = db'"
    using Cons.prems by (intro Cons.IH) fastforce
  with same r fc show ?case
    by (auto split: prod.splits)
qed

lemma validate_checkSchema_store:
  assumes "\<forall>f cs g. (f, cs) \<in> set sch \<and> custom g \<in> set cs \<longrightarrow> (\<forall>v r d. snd (g v r d) = d)"
  shows "snd (snd (validate (checkSchema D sch loc) req db)) = db"
  using run_fields_store [OF assms, of D loc req db]
  by (auto simp: validate_def checkSchema_def split: prod.splits)

lemma customs_store:
  "snd (loginValidator_email_custom D v r d) = d"
  "snd (registerValidator_email_custom v r d) = d"
  "snd (registerValidator_confirm_password_custom v r d) = d"
  "snd (accessTokenValidator_custom D v r d) = d"
  "snd (refreshTokenValidator_custom D v r d) = d"
  "snd (emailVerifyTokenValidator_custom D v r d) = d"
  "snd (forgotPassWordValidator_email_custom v r d) = d"
  "snd (verifyForgotPasswordTokenValidator_custom D v r d) = d"
  by (simp_all add: loginValidator_email_custom_def registerValidator_email_custom_def
      registerValidator_confirm_password_custom_def accessTokenValidator_custom_def
      refreshTokenValidator_custom_def emailVerifyTokenValidator_custom_def
      forgotPassWordValidator_email_custom_def verifyForgotPasswordTokenValidator_custom_def
      checkEmailExist_def users_findOne_def refreshTokens_findOne_def Let_def
      split: option.splits sum.splits exn.splits)

text \<open>The errors a run of the login and of the registration schema records, in order.\<close>

lemma loginValidator_errors:
  "fst (checkSchema D (loginValidator_schema D) Body req db) =
     failed (validator_isEmail D (toString (map_of (body req) ''email''))) ''email'' (Msg EMAIL_INVALID)
     @ failed (toString (map_of (body req) ''email'') \<noteq> []) ''email'' (Msg EMAIL_IS_REQUIRED)
     @ (case find (\<lambda>u. email u = str_trim (toString (map_of (body req) ''email''))
                     \<and> password u = hashPassword D (map_of (body req) ''password''))
               (users db) of
          None \<Rightarrow> [(''email'', Plain (Msg EMAIL_OR_PASSWORD_INCORRECT))]
        | Some u \<Rightarrow> [])
     @ failed (map_of (body req) ''password'' \<noteq> None) ''password'' (Msg PASSWORD_MUST_BE_STRING)
     @ failed (toString (map_of (body req) ''password'') \<noteq> []) ''password'' (Msg PASSWORD_IS_REQUIRED)
     @ failed (6 \<le> length (toString (map_of (body req) ''password''))
               \<and> length (toString (map_of (body req) ''password'')) \<le> 50)
         ''password'' (Msg PASSWORD_LENGTH)
     @ failed (validator_isStrongPassword D strong_options (toString (map_of (body req) ''password'')))
         ''password'' (Msg PASSWORD_MUST_BE_STRONG)"
  by (simp add: checkSchema_def loginValidator_schema_def loginValidator_email_custom_def
      users_findOne_def select_field_def assign_field_def update_conv' recorded_def
      split: option.splits)


lemma loginValidator_Next:
  "(fst (loginValidator D req db) = Next) =
     (fst (checkSchema D (loginValidator_schema D) Body req db) = [])"
  by (simp add: loginValidator_def validate_Next)

lemma loginValidator_errors_of:
  "errors_of (fst (loginValidator D req db)) =
     fst (checkSchema D (loginValidator_schema D) Body req db)"
  by (simp add: loginValidator_def errors_of_validate)



lemma loginValidator_errors_found:
  assumes "find (\<lambda>u. email u = str_trim e \<and> password u = hashPassword D pw) (users db) = Some u"
  and "e = toString (map_of (body req) ''email'')"
    and "pw = map_of (body req) ''password''"
  shows "(fst (checkSchema D (loginValidator_schema D) Body req db) = []) =
        (validator_isEmail D e \<and> e \<noteq> []
             \<and> pw \<noteq> None \<and> toString pw \<noteq> []
             \<and> 6 \<le> length (toString pw) \<and> length (toString pw) \<le> 50
             \<and> validator_isStrongPassword D strong_options (toString pw))"
  using assms(1) unfolding assms(2,3) by (simp add: loginValidator_errors failed_Nil)


lemma loginValidator_errors_not_found:
  assumes "find (\<lambda>u. email u = str_trim e \<and> password u = hashPassword D pw) (users db) = None"
  and "e = toString (map_of (body req) ''email'')"
    and "pw = map_of (body req) ''password''"
  shows "(''email'', Plain (Msg EMAIL_OR_PASSWORD_INCORRECT))
        \<in> set (fst (checkSchema D (loginValidator_schema D) Body req db))"
  using assms(1) unfolding assms(2,3) by (simp add: loginValidator_errors)

lemma registerValidator_errors:
  "fst (checkSchema D registerValidator_schema Body req db) =
     failed (map_of (body req) ''name'' \<noteq> None) ''name'' (Msg NAME_MUST_BE_STRING)
     @ failed (toString (map_of (body req) ''name'') \<noteq> []) ''name'' (Msg NAME_IS_REQUIRED)
     @ failed (1 \<le> length (toString (map_of (body req) ''name''))
               \<and> length (toString (map_of (body req) ''name'')) \<le> 100) ''name'' (Msg NAME_LENGTH)
     @ failed (validator_isEmail D (toString (map_of (body req) ''email''))) ''email'' (Msg EMAIL_INVALID)
     @ failed (toString (map_of (body req) ''email'') \<noteq> []) ''email'' (Msg EMAIL_IS_REQUIRED)
     @ (case find (\<lambda>u. email u = sanitized Body ''email'' req) (users db) of
          None \<Rightarrow> []
        | Some u \<Rightarrow> [(''email'', Plain (Msg EMAIL_ALREADY_EXISTS))])
     @ failed (map_of (body req) ''password'' \<noteq> None) ''password'' (Msg PASSWORD_MUST_BE_STRING)
     @ failed (toString (map_of (body req) ''password'') \<noteq> []) ''password'' (Msg PASSWORD_IS_REQUIRED)
     @ failed (6 \<le> length (toString (map_of (body req) ''password''))
               \<and> length (toString (map_of (body req) ''password'')) \<le> 50)
         ''password'' (Msg PASSWORD_LENGTH)
     @ failed (validator_isStrongPassword D strong_options (toString (map_of (body req) ''password'')))
         ''password'' (Msg PASSWORD_MUST_BE_STRONG)
     @ failed (map_of (body req) ''confirm_password'' \<noteq> None) ''confirm_password''
         (Msg CONFIRM_PASSWORD_MUST_BE_STRING)
     @ failed (toString (map_of (body req) ''confirm_password'') \<noteq> []) ''confirm_password''
         (Msg CONFIRM_PASSWORD_IS_REQUIRED)
     @ failed (6 \<le> length (toString (map_of (body req) ''confirm_password''))
               \<and> length (toString (map_of (body req) ''confirm_password'')) \<le> 50)
         ''confirm_password'' (Msg CONFIRM_PASSWORD_LENGTH)
     @ failed (validator_isStrongPassword D strong_options
                 (toString (map_of (body req) ''confirm_password'')))
         ''confirm_password'' (Msg CONFIRM_PASSWORD_MUST_BE_STRONG)
     @ (if map_of (body req) ''confirm_password'' \<noteq> map_of (body req) ''password''
        then [(''confirm_password'', Plain (Msg CONFIRM_PASSWORD_NOT_MATCH))]
        else [])
     @ failed (validator_isISO8601 D True True (toString (map_of (body req) ''date_of_birth'')))
         ''date_of_birth'' (Msg DATE_OF_BIRTH_MUST_BE_ISO8061)"
  by (simp add: checkSchema_def registerValidator_schema_def registerValidator_email_custom_def
      registerValidator_confirm_password_custom_def checkEmailExist_def
      users_findOne_def select_field_def assign_field_def update_conv' recorded_def
      sanitized_def toString_Some
      split: option.splits)

lemma verifyForgotPasswordTokenValidator_eval:
  assumes "sanitized Body ''forgot_password_token'' req \<noteq> []"
    and "verifyToken D (sanitized Body ''forgot_password_token'' req)
           (JWT_SECRET_FORGOT_PASSWORD_TOKEN D) = Inr p"
    and "ObjectId D (user_id p) = Inr i"
    and "find (\<lambda>u. oid u = i) (users db) = Some u"
  shows "fst (verifyForgotPasswordTokenValidator D req db) =
           (if forgot_password_token u = Some (sanitized Body ''forgot_password_token'' req)
            then Next
            else Rejected [(''forgot_password_token'',
                   WithStatus (Msg FORGOT_PASSWORD_TOKEN_IS_INVALID) UNAUTHORIZED)])"
  using assms
  by (simp add: verifyForgotPasswordTokenValidator_def validate_trim_custom
      verifyForgotPasswordTokenValidator_custom_def users_findOne_def toString_def recorded_def)

lemma emailVerifyTokenValidator_jwt_error:
  assumes "sanitized Body ''email_verify_token'' req \<noteq> []"
    and "verifyToken D (sanitized Body ''email_verify_token'' req)
           (JWT_SECRET_EMAIL_VERIFY_TOKEN D) = Inl (JsonWebTokenError m)"
  shows "fst (emailVerifyTokenValidator D req db) =
           Rejected [(''email_verify_token'', WithStatus (Msg REFRESH_TOKEN_INVALID) UNAUTHORIZED)]"
  using assms
  by (simp add: emailVerifyTokenValidator_def validate_trim_custom
      emailVerifyTokenValidator_custom_def toString_def recorded_def)

lemma verifyForgotPasswordTokenValidator_jwt_error:
  assumes "sanitized Body ''forgot_password_token'' req \<noteq> []"
    and "verifyToken D (sanitized Body ''forgot_password_token'' req)
           (JWT_SECRET_FORGOT_PASSWORD_TOKEN D) = Inl (JsonWebTokenError m)"
  shows "fst (verifyForgotPasswordTokenValidator D req db) =
           Rejected [(''forgot_password_token'',
             WithStatus (Msg REFRESH_TOKEN_INVALID) UNAUTHORIZED)]"
  using assms
  by (simp add: verifyForgotPasswordTokenValidator_def validate_trim_custom
      verifyForgotPasswordTokenValidator_custom_def toString_def recorded_def)

lemma accessTokenValidator_eval:
  "accessTokenValidator D req db =
     (if toString (access_token_of (Some (sanitized Headers ''Authorization'' req))) = []
      then (Rejected [(''Authorization'', WithStatus (Msg ACCESS_TOKEN_IS_REQUIRED) UNAUTHORIZED)],
            assign_field Headers ''Authorization'' (sanitized Headers ''Authorization'' req) req,
            db)
      else
        (case verifyToken D
                (toString (access_token_of (Some (sanitized Headers ''Authorization'' req))))
                (JWT_SECRET_ACCESS_TOKEN D) of
           Inr p \<Rightarrow>
             (Next,
              (assign_field Headers ''Authorization'' (sanitized Headers ''Authorization'' req) req)
                \<lparr>decoded_authorization := Some p\<rparr>,
              db)
         | Inl e \<Rightarrow>
             (Rejected [(''Authorization'', WithStatus (message_of e) UNAUTHORIZED)],
              assign_field Headers ''Authorization'' (sanitized Headers ''Authorization'' req) req,
              db)))"
  by (simp add: accessTokenValidator_def validate_trim_custom accessTokenValidator_custom_def
      recorded_def Let_def split: sum.splits)

lemma split_on_not_Nil: "split_on sep s \<noteq> []"
  by (induction s) (auto split: list.splits)

lemma split_on_no_sep: "sep \<notin> set s \<Longrightarrow> split_on sep s = [s]"
  by (induction s) auto

lemma split_on_append: "sep \<notin> set s \<Longrightarrow> split_on sep (s @ sep # t) = s # split_on sep t"
  by (induction s) auto

lemma access_token_of_no_space:
  "CHR '' '' \<notin> set h \<Longrightarrow> access_token_of (Some h) = None"
  by (simp add: access_token_of_def at_index_def toString_def split_on_no_sep)

lemma access_token_of_scheme:
  "CHR '' '' \<notin> set scheme \<Longrightarrow> CHR '' '' \<notin> set tok
     \<Longrightarrow> access_token_of (Some (scheme @ CHR '' '' # tok)) = Some tok"
  by (simp add: access_token_of_def at_index_def toString_def split_on_append split_on_no_sep)

section \<open>The refresh-token validator\<close>

text \<open>
  C1, as the code has it. Let \<open>t\<close> be the submitted \<open>refresh_token\<close> after the schema's
  \<open>trim\<close>. The validator passes exactly when \<open>t\<close> is not empty, verifies under the refresh
  secret and is a token of the refresh-token store. A non-empty \<open>t\<close> that verifies but is
  not stored is rejected with REFRESH_TOKEN_IS_USED_OR_NOT_EXIST at 401; a non-empty \<open>t\<close>
  whose verification fails with a JsonWebTokenError is rejected with REFRESH_TOKEN_INVALID
  at 401, stored or not; an empty \<open>t\<close> is rejected with REFRESH_TOKEN_IS_REQUIRED at 401
  and never verified.
\<close>

theorem refreshTokenValidator_accepts_iff:
  assumes "t = sanitized Body ''refresh_token'' req"
  shows "((fst (refreshTokenValidator D req db) = Next) =
            (t \<noteq> [] \<and> (\<exists>p. verifyToken D t (JWT_SECRET_REFRESH_TOKEN D) = Inr p)
              \<and> t \<in> set (stored_tokens db)))
       \<and> (t \<noteq> [] \<and> (\<exists>p. verifyToken D t (JWT_SECRET_REFRESH_TOKEN D) = Inr p)
              \<and> t \<notin> set (stored_tokens db)
            \<longrightarrow> fst (refreshTokenValidator D req db) =
                  Rejected [(''refresh_token'',
                    WithStatus (Msg REFRESH_TOKEN_IS_USED_OR_NOT_EXIST) UNAUTHORIZED)])
       \<and> (t \<noteq> [] \<and> (\<exists>m. verifyToken D t (JWT_SECRET_REFRESH_TOKEN D) = Inl (JsonWebTokenError m))
            \<longrightarrow> fst (refreshTokenValidator D req db) =
                  Rejected [(''refresh_token'', WithStatus (Msg REFRESH_TOKEN_INVALID) UNAUTHORIZED)])
       \<and> (t = []
            \<longrightarrow> fst (refreshTokenValidator D req db) =
                  Rejected [(''refresh_token'', WithStatus (Msg REFRESH_TOKEN_IS_REQUIRED) UNAUTHORIZED)])"
  unfolding assms refreshTokenValidator_eval
  by (auto split: sum.splits exn.splits)

text \<open>The four cases of C1 on the concrete installation: a stored refresh token sent with
  blanks around it, a refresh token that is not stored, a token issued under another
  secret, and a request without the field.\<close>

theorem refreshTokenValidator_accepts_iff_witness:
  "(sanitized Body ''refresh_token'' (example_request [] [(''refresh_token'', '' rt1 '')]) = ''rt1''
      \<and> verifyToken example_deps ''rt1'' (JWT_SECRET_REFRESH_TOKEN example_deps)
           = Inr (example_payload RefreshToken)
      \<and> ''rt1'' \<in> set (stored_tokens example_db)
      \<and> fst (refreshTokenValidator example_deps
               (example_request [] [(''refresh_token'', '' rt1 '')]) example_db) = Next)
   \<and> (sanitized Body ''refresh_token'' (example_request [] [(''refresh_token'', ''rt2'')]) = ''rt2''
      \<and> verifyToken example_deps ''rt2'' (JWT_SECRET_REFRESH_TOKEN example_deps)
           = Inr (example_payload RefreshToken)
      \<and> ''rt2'' \<notin> set (stored_tokens example_db)
      \<and> fst (refreshTokenValidator example_deps
               (example_request [] [(''refresh_token'', ''rt2'')]) example_db) =
          Rejected [(''refresh_token'',
            WithStatus (Msg REFRESH_TOKEN_IS_USED_OR_NOT_EXIST) UNAUTHORIZED)])
   \<and> (sanitized Body ''refresh_token'' (example_request [] [(''refresh_token'', ''ev1'')]) = ''ev1''
      \<and> verifyToken example_deps ''ev1'' (JWT_SECRET_REFRESH_TOKEN example_deps)
           = Inl (JsonWebTokenError (Text ''invalid signature''))
      \<and> fst (refreshTokenValidator example_deps
               (example_request [] [(''refresh_token'', ''ev1'')]) example_db) =
          Rejected [(''refresh_token'', WithStatus (Msg REFRESH_TOKEN_INVALID) UNAUTHORIZED)])
   \<and> (sanitized Body ''refresh_token'' (example_request [] []) = []
      \<and> fst (refreshTokenValidator example_deps (example_request [] []) example_db) =
          Rejected [(''refresh_token'', WithStatus (Msg REFRESH_TOKEN_IS_REQUIRED) UNAUTHORIZED)])"
proof -
  have s1: "sanitized Body ''refresh_token'' (example_request [] [(''refresh_token'', '' rt1 '')]) = ''rt1''"
    and s2: "sanitized Body ''refresh_token'' (example_request [] [(''refresh_token'', ''rt2'')]) = ''rt2''"
    and s3: "sanitized Body ''refresh_token'' (example_request [] [(''refresh_token'', ''ev1'')]) = ''ev1''"
    and s4: "sanitized Body ''refresh_token'' (example_request [] []) = []"
    by (simp_all add: string_defs example_defs)
  have v1: "verifyToken example_deps ''rt1'' (JWT_SECRET_REFRESH_TOKEN example_deps)
               = Inr (example_payload RefreshToken)"
    and v2: "verifyToken example_deps ''rt2'' (JWT_SECRET_REFRESH_TOKEN example_deps)
               = Inr (example_payload RefreshToken)"
    and v3: "verifyToken example_deps ''ev1'' (JWT_SECRET_REFRESH_TOKEN example_deps)
               = Inl (JsonWebTokenError (Text ''invalid signature''))"
    by (simp_all add: example_defs)
  have m1: "''rt1'' \<in> set (stored_tokens example_db)"
    and m2: "''rt2'' \<notin> set (stored_tokens example_db)"
    by (simp_all add: stored_tokens_def example_defs)
  from refreshTokenValidator_accepts_iff [OF s1 [symmetric], of example_deps example_db]
    refreshTokenValidator_accepts_iff [OF s2 [symmetric], of example_deps example_db]
    refreshTokenValidator_accepts_iff [OF s3 [symmetric], of example_deps example_db]
    refreshTokenValidator_accepts_iff [OF s4 [symmetric], of example_deps example_db]
  show ?thesis
    using s1 s2 s3 s4 v1 v2 v3 m1 m2 by simp
qed

text \<open>
  C1 as stated fails on two submitted strings. The empty string does not verify, yet the
  answer is REFRESH_TOKEN_IS_REQUIRED, not REFRESH_TOKEN_INVALID. The string \<open>" rt1 "\<close>
  is accepted although that literal string neither verifies nor is in the store: the
  validator works on the trimmed string.
\<close>

theorem refreshTokenValidator_literal_counterexample:
  "verifyToken example_deps [] (JWT_SECRET_REFRESH_TOKEN example_deps)
       = Inl (JsonWebTokenError (Text ''jwt malformed''))
   \<and> fst (refreshTokenValidator example_deps
            (example_request [] [(''refresh_token'', [])]) example_db)
       = Rejected [(''refresh_token'', WithStatus (Msg REFRESH_TOKEN_IS_REQUIRED) UNAUTHORIZED)]
   \<and> fst (refreshTokenValidator example_deps
            (example_request [] [(''refresh_token'', [])]) example_db)
       \<noteq> Rejected [(''refresh_token'', WithStatus (Msg REFRESH_TOKEN_INVALID) UNAUTHORIZED)]
   \<and> fst (refreshTokenValidator example_deps
            (example_request [] [(''refresh_token'', '' rt1 '')]) example_db) = Next
   \<and> '' rt1 '' \<notin> set (stored_tokens example_db)
   \<and> verifyToken example_deps '' rt1 '' (JWT_SECRET_REFRESH_TOKEN example_deps)
       = Inl (JsonWebTokenError (Text ''jwt malformed''))"
  by (simp add: refreshTokenValidator_eval string_defs example_defs)

text \<open>
  C2, as the code has it. The validator never reads \<open>token_type\<close>: a non-empty trimmed
  token that verifies under the refresh secret and is in the store is accepted whatever
  payload \<open>p\<close> the verification returned, and that payload is what the request carries
  afterwards as \<open>decoded_refresh_token\<close>.
\<close>

theorem refreshTokenValidator_ignores_token_type:
  assumes "t = sanitized Body ''refresh_token'' req"
    and "t \<noteq> []"
    and "verifyToken D t (JWT_SECRET_REFRESH_TOKEN D) = Inr p"
    and "t \<in> set (stored_tokens db)"
  shows "fst (refreshTokenValidator D req db) = Next
       \<and> decoded_refresh_token (fst (snd (refreshTokenValidator D req db))) = Some p"
  using assms by (simp add: refreshTokenValidator_accepted)

text \<open>
  C2 on the concrete installation: the stored refresh token \<open>rt1\<close> is accepted and its
  payload attached.
\<close>

theorem refreshTokenValidator_ignores_token_type_witness:
  "sanitized Body ''refresh_token'' (example_request [] [(''refresh_token'', ''rt1'')]) = ''rt1''
   \<and> verifyToken example_deps ''rt1'' (JWT_SECRET_REFRESH_TOKEN example_deps)
        = Inr (example_payload RefreshToken)
   \<and> ''rt1'' \<in> set (stored_tokens example_db)
   \<and> fst (refreshTokenValidator example_deps
            (example_request [] [(''refresh_token'', ''rt1'')]) example_db) = Next
   \<and> decoded_refresh_token (fst (snd (refreshTokenValidator example_deps
            (example_request [] [(''refresh_token'', ''rt1'')]) example_db)))
        = Some (example_payload RefreshToken)"
proof -
  have s: "''rt1'' = sanitized Body ''refresh_token'' (example_request [] [(''refresh_token'', ''rt1'')])"
    by (simp add: string_defs example_defs)
  have n: "''rt1'' \<noteq> []" by simp
  have v: "verifyToken example_deps ''rt1'' (JWT_SECRET_REFRESH_TOKEN example_deps)
             = Inr (example_payload RefreshToken)"
    by (simp add: example_defs)
  have m: "''rt1'' \<in> set (stored_tokens example_db)"
    by (simp add: stored_tokens_def example_defs)
  from refreshTokenValidator_ignores_token_type [OF s n v m] s v m show ?thesis by simp
qed

text \<open>
  C2 as stated fails: the stored token \<open>xk1\<close> verifies under the refresh secret with a
  payload of kind EmailVerifyToken, and the validator accepts it and attaches that
  payload.
\<close>

theorem refreshTokenValidator_token_type_counterexample:
  "verifyToken example_deps ''xk1'' (JWT_SECRET_REFRESH_TOKEN example_deps)
       = Inr (example_payload EmailVerifyToken)
   \<and> token_type (example_payload EmailVerifyToken) \<noteq> RefreshToken
   \<and> fst (refreshTokenValidator example_deps
            (example_request [] [(''refresh_token'', ''xk1'')]) example_db) = Next
   \<and> map_option token_type
        (decoded_refresh_token (fst (snd (refreshTokenValidator example_deps
            (example_request [] [(''refresh_token'', ''xk1'')]) example_db))))
       = Some EmailVerifyToken"
proof -
  have s: "sanitized Body ''refresh_token'' (example_request [] [(''refresh_token'', ''xk1'')]) = ''xk1''"
    by (simp add: string_defs example_defs)
  have v: "verifyToken example_deps ''xk1'' (JWT_SECRET_REFRESH_TOKEN example_deps)
             = Inr (example_payload EmailVerifyToken)"
    by (simp add: example_defs)
  have m: "''xk1'' \<in> set (stored_tokens example_db)"
    by (simp add: stored_tokens_def example_defs)
  have "refreshTokenValidator example_deps
          (example_request [] [(''refresh_token'', ''xk1'')]) example_db =
        (Next,
         (assign_field Body ''refresh_token'' ''xk1''
            (example_request [] [(''refresh_token'', ''xk1'')]))
           \<lparr>decoded_refresh_token := Some (example_payload EmailVerifyToken)\<rparr>,
         example_db)"
    using refreshTokenValidator_accepted [of "example_request [] [(''refresh_token'', ''xk1'')]"
        example_deps "example_payload EmailVerifyToken" example_db] s v m
    by simp
  with v show ?thesis by (simp add: example_payload_def)
qed

section \<open>The forgot-password and email-verify token validators\<close>

text \<open>
  C3. Let \<open>t\<close> be the submitted \<open>forgot_password_token\<close> after the schema's \<open>trim\<close>, not
  empty. When \<open>t\<close> decodes under the forgot-password secret and the user the payload
  names exists, the validator rejects with FORGOT_PASSWORD_TOKEN_IS_INVALID at 401 if \<open>t\<close>
  is not the token stored on that user, and passes if it is.
\<close>

theorem verifyForgotPasswordTokenValidator_stored_token:
  assumes "t = sanitized Body ''forgot_password_token'' req"
    and "t \<noteq> []"
    and "verifyToken D t (JWT_SECRET_FORGOT_PASSWORD_TOKEN D) = Inr p"
    and "ObjectId D (user_id p) = Inr i"
    and "find (\<lambda>u. oid u = i) (users db) = Some u"
  shows "(forgot_password_token u \<noteq> Some t \<longrightarrow>
            fst (verifyForgotPasswordTokenValidator D req db) =
              Rejected [(''forgot_password_token'',
                WithStatus (Msg FORGOT_PASSWORD_TOKEN_IS_INVALID) UNAUTHORIZED)])
       \<and> (forgot_password_token u = Some t \<longrightarrow>
            fst (verifyForgotPasswordTokenValidator D req db) = Next)"
  using assms by (simp add: verifyForgotPasswordTokenValidator_eval)

text \<open>
  C3 on the concrete installation: the user's stored token is \<open>fp2\<close>; the older token
  \<open>fp1\<close>, which still decodes, is rejected, and \<open>fp2\<close> passes.
\<close>

theorem verifyForgotPasswordTokenValidator_stored_token_witness:
  "(sanitized Body ''forgot_password_token''
        (example_request [] [(''forgot_password_token'', ''fp1'')]) = ''fp1''
      \<and> verifyToken example_deps ''fp1'' (JWT_SECRET_FORGOT_PASSWORD_TOKEN example_deps)
           = Inr (example_payload ForgotPasswordToken)
      \<and> ObjectId example_deps (user_id (example_payload ForgotPasswordToken)) = Inr ''u1''
      \<and> find (\<lambda>u. oid u = ''u1'') (users example_db) = Some example_user
      \<and> forgot_password_token example_user \<noteq> Some ''fp1''
      \<and> fst (verifyForgotPasswordTokenValidator example_deps
               (example_request [] [(''forgot_password_token'', ''fp1'')]) example_db) =
          Rejected [(''forgot_password_token'',
            WithStatus (Msg FORGOT_PASSWORD_TOKEN_IS_INVALID) UNAUTHORIZED)])
   \<and> (sanitized Body ''forgot_password_token''
        (example_request [] [(''forgot_password_token'', ''fp2'')]) = ''fp2''
      \<and> verifyToken example_deps ''fp2'' (JWT_SECRET_FORGOT_PASSWORD_TOKEN example_deps)
           = Inr (example_payload ForgotPasswordToken)
      \<and> forgot_password_token example_user = Some ''fp2''
      \<and> fst (verifyForgotPasswordTokenValidator example_deps
               (example_request [] [(''forgot_password_token'', ''fp2'')]) example_db) = Next)"
proof -
  have s1: "''fp1'' = sanitized Body ''forgot_password_token''
              (example_request [] [(''forgot_password_token'', ''fp1'')])"
    and s2: "''fp2'' = sanitized Body ''forgot_password_token''
              (example_request [] [(''forgot_password_token'', ''fp2'')])"
    by (simp_all add: string_defs example_defs)
  have n1: "''fp1'' \<noteq> []" and n2: "''fp2'' \<noteq> []" by simp_all
  have v1: "verifyToken example_deps ''fp1'' (JWT_SECRET_FORGOT_PASSWORD_TOKEN example_deps)
              = Inr (example_payload ForgotPasswordToken)"
    and v2: "verifyToken example_deps ''fp2'' (JWT_SECRET_FORGOT_PASSWORD_TOKEN example_deps)
              = Inr (example_payload ForgotPasswordToken)"
    by (simp_all add: example_defs)
  have i: "ObjectId example_deps (user_id (example_payload ForgotPasswordToken)) = Inr ''u1''"
    by (simp add: example_defs)
  have u: "find (\<lambda>u. oid u = ''u1'') (users example_db) = Some example_user"
    by (simp add: example_defs)
  have f1: "forgot_password_token example_user \<noteq> Some ''fp1''"
    and f2: "forgot_password_token example_user = Some ''fp2''"
    by (simp_all add: example_defs)
  from verifyForgotPasswordTokenValidator_stored_token [OF s1 n1 v1 i u]
    verifyForgotPasswordTokenValidator_stored_token [OF s2 n2 v2 i u]
    s1 s2 v1 v2 i u f1 f2
  show ?thesis by simp
qed

text \<open>
  C4 fails on the code. A present token that is no JSON web token makes the verification
  fail with a JsonWebTokenError; both the email-verify and the forgot-password validator
  then answer with the message of the refresh flow, REFRESH_TOKEN_INVALID, at 401.
\<close>

theorem token_validators_report_refresh_message:
  "verifyToken example_deps ''zz'' (JWT_SECRET_EMAIL_VERIFY_TOKEN example_deps)
       = Inl (JsonWebTokenError (Text ''jwt malformed''))
   \<and> fst (emailVerifyTokenValidator example_deps
            (example_request [] [(''email_verify_token'', ''zz'')]) example_db) =
        Rejected [(''email_verify_token'', WithStatus (Msg REFRESH_TOKEN_INVALID) UNAUTHORIZED)]
   \<and> verifyToken example_deps ''zz'' (JWT_SECRET_FORGOT_PASSWORD_TOKEN example_deps)
       = Inl (JsonWebTokenError (Text ''jwt malformed''))
   \<and> fst (verifyForgotPasswordTokenValidator example_deps
            (example_request [] [(''forgot_password_token'', ''zz'')]) example_db) =
        Rejected [(''forgot_password_token'', WithStatus (Msg REFRESH_TOKEN_INVALID) UNAUTHORIZED)]"
proof -
  have s1: "sanitized Body ''email_verify_token''
              (example_request [] [(''email_verify_token'', ''zz'')]) = ''zz''"
    and s2: "sanitized Body ''forgot_password_token''
              (example_request [] [(''forgot_password_token'', ''zz'')]) = ''zz''"
    by (simp_all add: string_defs example_defs)
  have v1: "verifyToken example_deps ''zz'' (JWT_SECRET_EMAIL_VERIFY_TOKEN example_deps)
       = Inl (JsonWebTokenError (Text ''jwt malformed''))"
    and v2: "verifyToken example_deps ''zz'' (JWT_SECRET_FORGOT_PASSWORD_TOKEN example_deps)
       = Inl (JsonWebTokenError (Text ''jwt malformed''))"
    by (simp_all add: example_defs)
  show ?thesis
    using emailVerifyTokenValidator_jwt_error
        [of "example_request [] [(''email_verify_token'', ''zz'')]" example_deps
          "Text ''jwt malformed''" example_db]
      verifyForgotPasswordTokenValidator_jwt_error
        [of "example_request [] [(''forgot_password_token'', ''zz'')]" example_deps
          "Text ''jwt malformed''" example_db]
      s1 s2 v1 v2
    by simp
qed

section \<open>Tokens of another kind at the refresh endpoint\<close>

text \<open>
  C5, with the codec of the spec. When verification is the codec's \<open>verify\<close>, the
  email-verify secret and the refresh secret differ, and the submitted token (a token
  string: not empty, no blanks around it) was issued under the email-verify secret, the
  refresh-token validator rejects it with REFRESH_TOKEN_INVALID at 401, whatever payload
  the token carries and whatever the store holds.
\<close>

theorem refreshTokenValidator_rejects_other_secret:
  assumes "verifyToken D = verify signed now"
    and "signed tok = Some (JWT_SECRET_EMAIL_VERIFY_TOKEN D, p)"
    and "JWT_SECRET_EMAIL_VERIFY_TOKEN D \<noteq> JWT_SECRET_REFRESH_TOKEN D"
    and "map_of (body req) ''refresh_token'' = Some tok"
    and "str_trim tok = tok"
    and "tok \<noteq> []"
  shows "fst (refreshTokenValidator D req db) =
           Rejected [(''refresh_token'', WithStatus (Msg REFRESH_TOKEN_INVALID) UNAUTHORIZED)]"
proof -
  have s: "sanitized Body ''refresh_token'' req = tok"
    using assms(4,5) by (simp add: sanitized_def select_field_def toString_def)
  have "verifyToken D tok (JWT_SECRET_REFRESH_TOKEN D)
          = Inl (JsonWebTokenError (Text ''invalid signature''))"
    using assms(1,2,3) by (simp add: verify_def)
  with s assms(6) show ?thesis
    by (simp add: refreshTokenValidator_eval)
qed

text \<open>
  C5 on the concrete installation: \<open>ev1\<close> was issued under the email-verify secret; it is
  rejected even by a store that lists it among the refresh tokens.
\<close>

theorem refreshTokenValidator_rejects_other_secret_witness:
  "verifyToken example_deps = verify example_signed 100
   \<and> example_signed ''ev1'' = Some (JWT_SECRET_EMAIL_VERIFY_TOKEN example_deps,
        example_payload EmailVerifyToken)
   \<and> JWT_SECRET_EMAIL_VERIFY_TOKEN example_deps \<noteq> JWT_SECRET_REFRESH_TOKEN example_deps
   \<and> map_of (body (example_request [] [(''refresh_token'', ''ev1'')])) ''refresh_token'' = Some ''ev1''
   \<and> str_trim ''ev1'' = ''ev1''
   \<and> fst (refreshTokenValidator example_deps
            (example_request [] [(''refresh_token'', ''ev1'')])
            \<lparr>users = [], refreshTokens = [\<lparr>token = ''ev1'', owner = ''u1''\<rparr>]\<rparr>) =
        Rejected [(''refresh_token'', WithStatus (Msg REFRESH_TOKEN_INVALID) UNAUTHORIZED)]"
proof -
  have a: "verifyToken example_deps = verify example_signed 100"
    by (simp add: example_deps_def)
  have b: "example_signed ''ev1'' = Some (JWT_SECRET_EMAIL_VERIFY_TOKEN example_deps,
             example_payload EmailVerifyToken)"
    by (simp add: example_deps_def example_signed_def)
  have c: "JWT_SECRET_EMAIL_VERIFY_TOKEN example_deps \<noteq> JWT_SECRET_REFRESH_TOKEN example_deps"
    by (simp add: example_deps_def)
  have d: "map_of (body (example_request [] [(''refresh_token'', ''ev1'')])) ''refresh_token''
             = Some ''ev1''"
    by (simp add: example_request_def)
  have e: "str_trim ''ev1'' = ''ev1''" by (simp add: str_trim_def isspace_def)
  have f: "''ev1'' \<noteq> []" by simp
  from refreshTokenValidator_rejects_other_secret [OF a b c d e f] a b c d e
  show ?thesis by simp
qed

section \<open>Login and registration\<close>

text \<open>
  C6, as the code has it. Let \<open>e\<close> be the submitted email and \<open>pw\<close> the submitted
  password. The login validator passes exactly when \<open>e\<close> is a well-formed, non-empty
  email, \<open>pw\<close> is a present, non-empty string of 6 to 50 characters that is a strong
  password, and some user record has the trimmed \<open>e\<close> as its email and the hash of \<open>pw\<close>
  as its password. When no user record is such, EMAIL_OR_PASSWORD_INCORRECT is among the
  errors the validator rejects with, for the field email.
\<close>

theorem loginValidator_accepts_iff:
  assumes "e = toString (map_of (body req) ''email'')"
    and "pw = map_of (body req) ''password''"
  shows "((fst (loginValidator D req db) = Next) =
            (validator_isEmail D e \<and> e \<noteq> []
             \<and> pw \<noteq> None \<and> toString pw \<noteq> []
             \<and> 6 \<le> length (toString pw) \<and> length (toString pw) \<le> 50
             \<and> validator_isStrongPassword D strong_options (toString pw)
             \<and> (\<exists>u\<in>set (users db). email u = str_trim e \<and> password u = hashPassword D pw)))
       \<and> (\<not> (\<exists>u\<in>set (users db). email u = str_trim e \<and> password u = hashPassword D pw)
            \<longrightarrow> (''email'', Plain (Msg EMAIL_OR_PASSWORD_INCORRECT))
                  \<in> set (errors_of (fst (loginValidator D req db))))"
proof (cases "find (\<lambda>u. email u = str_trim e \<and> password u = hashPassword D pw) (users db)")
  case None
  then have no: "\<not> (\<exists>u\<in>set (users db). email u = str_trim e \<and> password u = hashPassword D pw)"
    by (simp add: find_None_iff)
  have bad: "fst (checkSchema D (loginValidator_schema D) Body req db) \<noteq> []"
    using loginValidator_errors_not_found [OF None assms] by auto
  show ?thesis
    using no bad loginValidator_errors_not_found [OF None assms]
    by (simp add: loginValidator_Next loginValidator_errors_of)
next
  case (Some u)
  then have yes: "\<exists>u\<in>set (users db). email u = str_trim e \<and> password u = hashPassword D pw"
    using find_Some_member [OF Some] by blast
  show ?thesis
    using yes loginValidator_errors_found [OF Some assms]
    by (simp add: loginValidator_Next loginValidator_errors_of)
qed

text \<open>
  C6 on the concrete installation: the registered user logs in with her password, and a
  login for an email nobody has records EMAIL_OR_PASSWORD_INCORRECT.
\<close>

theorem loginValidator_accepts_iff_witness:
  "(toString (map_of (body (example_request [] [(''email'', ''a@x.com''), (''password'', ''Aa1!aaaa'')]))
       ''email'') = ''a@x.com''
     \<and> example_user \<in> set (users example_db)
     \<and> email example_user = str_trim ''a@x.com''
     \<and> password example_user = hashPassword example_deps (Some ''Aa1!aaaa'')
     \<and> fst (loginValidator example_deps
              (example_request [] [(''email'', ''a@x.com''), (''password'', ''Aa1!aaaa'')])
              example_db) = Next)
   \<and> (list_all (\<lambda>u. \<not> (email u = str_trim ''c@x.com''
                         \<and> password u = hashPassword example_deps (Some ''Aa1!aaaa'')))
         (users example_db)
     \<and> (''email'', Plain (Msg EMAIL_OR_PASSWORD_INCORRECT))
          \<in> set (errors_of (fst (loginValidator example_deps
                (example_request [] [(''email'', ''c@x.com''), (''password'', ''Aa1!aaaa'')])
                example_db))))"
proof -
  let ?r1 = "example_request [] [(''email'', ''a@x.com''), (''password'', ''Aa1!aaaa'')]"
  let ?r2 = "example_request [] [(''email'', ''c@x.com''), (''password'', ''Aa1!aaaa'')]"
  have e1: "''a@x.com'' = toString (map_of (body ?r1) ''email'')"
    and p1: "Some ''Aa1!aaaa'' = map_of (body ?r1) ''password''"
    and e2: "''c@x.com'' = toString (map_of (body ?r2) ''email'')"
    and p2: "Some ''Aa1!aaaa'' = map_of (body ?r2) ''password''"
    by (simp_all add: example_request_def toString_def)
  have facts:
    "example_user \<in> set (users example_db)"
    "email example_user = str_trim ''a@x.com''"
    "password example_user = hashPassword example_deps (Some ''Aa1!aaaa'')"
    "validator_isEmail example_deps ''a@x.com''"
    "validator_isStrongPassword example_deps strong_options ''Aa1!aaaa''"
    "list_all (\<lambda>u. \<not> (email u = str_trim ''c@x.com''
                         \<and> password u = hashPassword example_deps (Some ''Aa1!aaaa'')))
         (users example_db)"
    by (simp_all add: example_defs string_defs strong_options_def)
  from loginValidator_accepts_iff [OF e1 p1, of example_deps example_db]
    loginValidator_accepts_iff [OF e2 p2, of example_deps example_db]
    facts e1 [symmetric]
  show ?thesis
    by (auto simp: toString_def list_all_iff)
qed

text \<open>
  C6 as stated fails twice. A user record with the submitted email and the hash of the
  submitted password exists, yet the login is rejected, because the password is shorter
  than the schema admits. And a login whose email has a blank in front is rejected with
  EMAIL_INVALID alone, although no user record has that email: the lookup runs on the
  trimmed email and finds the user.
\<close>

theorem loginValidator_syntactic_counterexample:
  "example_legacy_user \<in> set (users example_db)
   \<and> email example_legacy_user = ''b@x.com''
   \<and> password example_legacy_user = hashPassword example_deps (Some ''abc'')
   \<and> fst (loginValidator example_deps
            (example_request [] [(''email'', ''b@x.com''), (''password'', ''abc'')]) example_db) =
        Rejected [(''password'', Plain (Msg PASSWORD_LENGTH)),
                  (''password'', Plain (Msg PASSWORD_MUST_BE_STRONG))]
   \<and> list_all (\<lambda>u. email u \<noteq> '' a@x.com'') (users example_db)
   \<and> fst (loginValidator example_deps
            (example_request [] [(''email'', '' a@x.com''), (''password'', ''Aa1!aaaa'')])
            example_db) =
        Rejected [(''email'', Plain (Msg EMAIL_INVALID))]"
  unfolding loginValidator_def fst_validate loginValidator_errors
  by (simp add: failed_def example_defs string_defs strong_options_def)

text \<open>
  C7. When a user record has the submitted email (as trimmed by the schema), the
  registration validator rejects, EMAIL_ALREADY_EXISTS is among its errors for the field
  email, and the store after the rejection is the store before it.
\<close>

theorem registerValidator_rejects_existing_email:
  assumes "u \<in> set (users db)"
    and "email u = sanitized Body ''email'' req"
  shows "(''email'', Plain (Msg EMAIL_ALREADY_EXISTS))
           \<in> set (errors_of (fst (registerValidator D req db)))
       \<and> fst (registerValidator D req db) \<noteq> Next
       \<and> snd (snd (registerValidator D req db)) = db"
proof -
  from assms obtain u' where "find (\<lambda>u. email u = sanitized Body ''email'' req) (users db) = Some u'"
    by (cases "find (\<lambda>u. email u = sanitized Body ''email'' req) (users db)")
       (auto simp: find_None_iff)
  then have mem: "(''email'', Plain (Msg EMAIL_ALREADY_EXISTS))
      \<in> set (fst (checkSchema D registerValidator_schema Body req db))"
    by (simp add: registerValidator_errors)
  then have "fst (checkSchema D registerValidator_schema Body req db) \<noteq> []"
    by auto
  with mem have "(''email'', Plain (Msg EMAIL_ALREADY_EXISTS))
           \<in> set (errors_of (fst (registerValidator D req db)))
       \<and> fst (registerValidator D req db) \<noteq> Next"
    by (simp add: registerValidator_def errors_of_validate validate_Next)
  moreover have "snd (snd (registerValidator D req db)) = db"
    unfolding registerValidator_def
    by (rule validate_checkSchema_store) (auto simp: registerValidator_schema_def customs_store)
  ultimately show ?thesis by simp
qed

text \<open>
  C7 on the concrete installation: a second registration with the email of the registered
  user, otherwise well-formed, is rejected with EMAIL_ALREADY_EXISTS alone.
\<close>

theorem registerValidator_rejects_existing_email_witness:
  "example_user \<in> set (users example_db)
   \<and> email example_user = sanitized Body ''email''
        (example_request []
           [(''name'', ''Ann''), (''email'', ''a@x.com''), (''password'', ''Aa1!aaaa''),
            (''confirm_password'', ''Aa1!aaaa''), (''date_of_birth'', ''2000-01-01'')])
   \<and> fst (registerValidator example_deps
        (example_request []
           [(''name'', ''Ann''), (''email'', ''a@x.com''), (''password'', ''Aa1!aaaa''),
            (''confirm_password'', ''Aa1!aaaa''), (''date_of_birth'', ''2000-01-01'')])
        example_db) = Rejected [(''email'', Plain (Msg EMAIL_ALREADY_EXISTS))]
   \<and> snd (snd (registerValidator example_deps
        (example_request []
           [(''name'', ''Ann''), (''email'', ''a@x.com''), (''password'', ''Aa1!aaaa''),
            (''confirm_password'', ''Aa1!aaaa''), (''date_of_birth'', ''2000-01-01'')])
        example_db)) = example_db"
proof -
  let ?r = "example_request []
           [(''name'', ''Ann''), (''email'', ''a@x.com''), (''password'', ''Aa1!aaaa''),
            (''confirm_password'', ''Aa1!aaaa''), (''date_of_birth'', ''2000-01-01'')]"
  have a: "example_user \<in> set (users example_db)"
    by (simp add: example_db_def)
  have b: "email example_user = sanitized Body ''email'' ?r"
    by (simp add: example_defs string_defs)
  have c: "fst (registerValidator example_deps ?r example_db)
             = Rejected [(''email'', Plain (Msg EMAIL_ALREADY_EXISTS))]"
    unfolding registerValidator_def fst_validate registerValidator_errors
    by (simp add: failed_def example_defs string_defs strong_options_def)
  from registerValidator_rejects_existing_email [OF a b, of example_deps] a b c
  show ?thesis by simp
qed

section \<open>The access-token validator\<close>

text \<open>
  C8. The outcome of the access-token validator and the request it hands on are the same
  for every two states of the store: it looks nothing up in the store.
\<close>

theorem accessTokenValidator_store_independent:
  "fst (accessTokenValidator D req db1) = fst (accessTokenValidator D req db2)
   \<and> fst (snd (accessTokenValidator D req db1)) = fst (snd (accessTokenValidator D req db2))"
  by (simp add: accessTokenValidator_eval split: sum.splits)

text \<open>
  C8 on the concrete installation: a valid access token passes on the populated store and
  on the empty one alike, and its payload is attached.
\<close>

theorem accessTokenValidator_store_independent_witness:
  "fst (accessTokenValidator example_deps
          (example_request [(''authorization'', ''Bearer at1'')] []) example_db) = Next
   \<and> fst (accessTokenValidator example_deps
          (example_request [(''authorization'', ''Bearer at1'')] []) empty_db) = Next
   \<and> map_option token_type (decoded_authorization (fst (snd (accessTokenValidator example_deps
          (example_request [(''authorization'', ''Bearer at1'')] []) empty_db))))
       = Some AccessToken"
proof -
  have "fst (accessTokenValidator example_deps
          (example_request [(''authorization'', ''Bearer at1'')] []) empty_db) = Next
     \<and> map_option token_type (decoded_authorization (fst (snd (accessTokenValidator example_deps
          (example_request [(''authorization'', ''Bearer at1'')] []) empty_db))))
       = Some AccessToken"
    by (simp add: accessTokenValidator_eval access_token_of_def at_index_def
        string_defs example_defs)
  with accessTokenValidator_store_independent [of example_deps
      "example_request [(''authorization'', ''Bearer at1'')] []" example_db empty_db]
  show ?thesis by simp
qed

text \<open>
  C9, as the code has it. Let \<open>h\<close> be the Authorization header after the schema's \<open>trim\<close>.
  The credential is the second piece of \<open>h\<close> split at every single space character; a
  missing or empty second piece is rejected with ACCESS_TOKEN_IS_REQUIRED at 401, any other
  is verified under the access secret. So a header without a space is rejected with
  ACCESS_TOKEN_IS_REQUIRED, and a header made of a scheme word, one space and a token is
  judged by the token alone, whatever the scheme word is.
\<close>

theorem accessTokenValidator_credential:
  assumes "h = sanitized Headers ''Authorization'' req"
  shows "fst (accessTokenValidator D req db) =
           (case at_index (split_on CHR '' '' h) 1 of
              None \<Rightarrow>
                Rejected [(''Authorization'', WithStatus (Msg ACCESS_TOKEN_IS_REQUIRED) UNAUTHORIZED)]
            | Some tok \<Rightarrow>
                (if tok = []
                 then Rejected [(''Authorization'',
                        WithStatus (Msg ACCESS_TOKEN_IS_REQUIRED) UNAUTHORIZED)]
                 else
                   (case verifyToken D tok (JWT_SECRET_ACCESS_TOKEN D) of
                      Inr p \<Rightarrow> Next
                    | Inl e \<Rightarrow>
                        Rejected [(''Authorization'', WithStatus (message_of e) UNAUTHORIZED)])))
       \<and> (CHR '' '' \<notin> set h \<longrightarrow>
            fst (accessTokenValidator D req db) =
              Rejected [(''Authorization'', WithStatus (Msg ACCESS_TOKEN_IS_REQUIRED) UNAUTHORIZED)])
       \<and> (\<forall>scheme tok.
            h = scheme @ CHR '' '' # tok \<and> CHR '' '' \<notin> set scheme \<and> CHR '' '' \<notin> set tok
              \<and> tok \<noteq> []
            \<longrightarrow> fst (accessTokenValidator D req db) =
                  (case verifyToken D tok (JWT_SECRET_ACCESS_TOKEN D) of
                     Inr p \<Rightarrow> Next
                   | Inl e \<Rightarrow>
                       Rejected [(''Authorization'', WithStatus (message_of e) UNAUTHORIZED)]))"
proof -
  have 1: "fst (accessTokenValidator D req db) =
           (case at_index (split_on CHR '' '' h) 1 of
              None \<Rightarrow>
                Rejected [(''Authorization'', WithStatus (Msg ACCESS_TOKEN_IS_REQUIRED) UNAUTHORIZED)]
            | Some tok \<Rightarrow>
                (if tok = []
                 then Rejected [(''Authorization'',
                        WithStatus (Msg ACCESS_TOKEN_IS_REQUIRED) UNAUTHORIZED)]
                 else
                   (case verifyToken D tok (JWT_SECRET_ACCESS_TOKEN D) of
                      Inr p \<Rightarrow> Next
                    | Inl e \<Rightarrow>
                        Rejected [(''Authorization'', WithStatus (message_of e) UNAUTHORIZED)])))"
    unfolding assms
    by (simp add: accessTokenValidator_eval access_token_of_def toString_def
        split: option.splits sum.splits)
  have 2: "fst (accessTokenValidator D req db) =
              Rejected [(''Authorization'', WithStatus (Msg ACCESS_TOKEN_IS_REQUIRED) UNAUTHORIZED)]"
    if "CHR '' '' \<notin> set h"
    using that unfolding assms
    by (simp add: accessTokenValidator_eval access_token_of_no_space toString_def)
  have 3: "fst (accessTokenValidator D req db) =
                  (case verifyToken D tok (JWT_SECRET_ACCESS_TOKEN D) of
                     Inr p \<Rightarrow> Next
                   | Inl e \<Rightarrow>
                       Rejected [(''Authorization'', WithStatus (message_of e) UNAUTHORIZED)])"
    if "h = scheme @ CHR '' '' # tok" "CHR '' '' \<notin> set scheme" "CHR '' '' \<notin> set tok" "tok \<noteq> []"
    for scheme tok
  proof -
    from that(1) assms have "sanitized Headers ''Authorization'' req = scheme @ CHR '' '' # tok"
      by simp
    with that(2,3,4) show ?thesis
      by (simp add: accessTokenValidator_eval access_token_of_scheme toString_def
          split: sum.splits)
  qed
  from 1 2 3 show ?thesis by blast
qed

text \<open>
  C9 on the concrete installation: a valid access token passes under the scheme word
  Basic, and is rejected with ACCESS_TOKEN_IS_REQUIRED when sent without a scheme word.
\<close>

theorem accessTokenValidator_credential_witness:
  "(sanitized Headers ''Authorization'' (example_request [(''authorization'', ''Basic at1'')] [])
       = ''Basic'' @ CHR '' '' # ''at1''
     \<and> CHR '' '' \<notin> set ''Basic'' \<and> CHR '' '' \<notin> set ''at1''
     \<and> verifyToken example_deps ''at1'' (JWT_SECRET_ACCESS_TOKEN example_deps)
          = Inr (example_payload AccessToken)
     \<and> fst (accessTokenValidator example_deps
              (example_request [(''authorization'', ''Basic at1'')] []) example_db) = Next)
   \<and> (sanitized Headers ''Authorization'' (example_request [(''authorization'', ''at1'')] [])
       = ''at1''
     \<and> CHR '' '' \<notin> set ''at1''
     \<and> fst (accessTokenValidator example_deps
              (example_request [(''authorization'', ''at1'')] []) example_db) =
          Rejected [(''Authorization'', WithStatus (Msg ACCESS_TOKEN_IS_REQUIRED) UNAUTHORIZED)])"
proof -
  have s1: "''Basic'' @ CHR '' '' # ''at1'' =
      sanitized Headers ''Authorization'' (example_request [(''authorization'', ''Basic at1'')] [])"
    and s2: "''at1'' =
      sanitized Headers ''Authorization'' (example_request [(''authorization'', ''at1'')] [])"
    by (simp_all add: string_defs example_defs)
  have v: "verifyToken example_deps ''at1'' (JWT_SECRET_ACCESS_TOKEN example_deps)
          = Inr (example_payload AccessToken)"
    by (simp add: example_defs)
  have n: "CHR '' '' \<notin> set ''Basic''" "CHR '' '' \<notin> set ''at1''" "''at1'' \<noteq> []"
    by simp_all
  from accessTokenValidator_credential [OF s1, of example_deps example_db]
  have "fst (accessTokenValidator example_deps
              (example_request [(''authorization'', ''Basic at1'')] []) example_db) =
          (case verifyToken example_deps ''at1'' (JWT_SECRET_ACCESS_TOKEN example_deps) of
                     Inr p \<Rightarrow> Next
                   | Inl e \<Rightarrow>
                       Rejected [(''Authorization'', WithStatus (message_of e) UNAUTHORIZED)])"
    using n by blast
  moreover from accessTokenValidator_credential [OF s2, of example_deps example_db]
  have "fst (accessTokenValidator example_deps
              (example_request [(''authorization'', ''at1'')] []) example_db) =
          Rejected [(''Authorization'', WithStatus (Msg ACCESS_TOKEN_IS_REQUIRED) UNAUTHORIZED)]"
    using n by blast
  ultimately show ?thesis
    using s1 [symmetric] s2 [symmetric] v n by simp
qed

text \<open>
  C9 as stated fails: in the header \<open>"Bearer  at1"\<close>, with two spaces, the second
  whitespace-separated chunk is the valid access token \<open>at1\<close>, but the credential the
  validator takes is the empty piece between the two spaces, and it rejects with
  ACCESS_TOKEN_IS_REQUIRED.
\<close>

theorem accessTokenValidator_whitespace_counterexample:
  "sanitized Headers ''Authorization'' (example_request [(''authorization'', ''Bearer  at1'')] [])
       = ''Bearer  at1''
   \<and> at_index (ws_chunks ''Bearer  at1'') 1 = Some ''at1''
   \<and> verifyToken example_deps ''at1'' (JWT_SECRET_ACCESS_TOKEN example_deps)
        = Inr (example_payload AccessToken)
   \<and> access_token_of (Some ''Bearer  at1'') = Some []
   \<and> fst (accessTokenValidator example_deps
            (example_request [(''authorization'', ''Bearer  at1'')] []) example_db) =
        Rejected [(''Authorization'', WithStatus (Msg ACCESS_TOKEN_IS_REQUIRED) UNAUTHORIZED)]"
  by (simp add: accessTokenValidator_eval access_token_of_def at_index_def ws_chunks_def
      string_defs example_defs)

section \<open>The validators and the store\<close>

text \<open>
  C10. Each of the seven validators of users.middlewares.ts hands the store on as it
  received it, whether it passes or rejects.
\<close>

theorem validators_leave_store_unchanged:
  "snd (snd (loginValidator D req db)) = db
   \<and> snd (snd (registerValidator D req db)) = db
   \<and> snd (snd (accessTokenValidator D req db)) = db
   \<and> snd (snd (refreshTokenValidator D req db)) = db
   \<and> snd (snd (emailVerifyTokenValidator D req db)) = db
   \<and> snd (snd (forgotPassWordValidator D req db)) = db
   \<and> snd (snd (verifyForgotPasswordTokenValidator D req db)) = db"
proof -
  have "snd (snd (loginValidator D req db)) = db"
    unfolding loginValidator_def
    by (rule validate_checkSchema_store) (auto simp: loginValidator_schema_def customs_store)
  moreover have "snd (snd (registerValidator D req db)) = db"
    unfolding registerValidator_def
    by (rule validate_checkSchema_store) (auto simp: registerValidator_schema_def customs_store)
  moreover have "snd (snd (accessTokenValidator D req db)) = db"
    unfolding accessTokenValidator_def
    by (rule validate_checkSchema_store) (auto simp: customs_store)
  moreover have "snd (snd (refreshTokenValidator D req db)) = db"
    unfolding refreshTokenValidator_def
    by (rule validate_checkSchema_store) (auto simp: customs_store)
  moreover have "snd (snd (emailVerifyTokenValidator D req db)) = db"
    unfolding emailVerifyTokenValidator_def
    by (rule validate_checkSchema_store) (auto simp: customs_store)
  moreover have "snd (snd (forgotPassWordValidator D req db)) = db"
    unfolding forgotPassWordValidator_def
    by (rule validate_checkSchema_store) (auto simp: customs_store)
  moreover have "snd (snd (verifyForgotPasswordTokenValidator D req db)) = db"
    unfolding verifyForgotPasswordTokenValidator_def
    by (rule validate_checkSchema_store) (auto simp: customs_store)
  ultimately show ?thesis by simp
qed

text \<open>
  C10 on the concrete installation: a login that passes, a refresh and a forgot-password
  check that rejects leave the store as it was.
\<close>

theorem validators_leave_store_unchanged_witness:
  "snd (snd (loginValidator example_deps
        (example_request [] [(''email'', ''a@x.com''), (''password'', ''Aa1!aaaa'')]) example_db))
     = example_db
   \<and> snd (snd (refreshTokenValidator example_deps
        (example_request [] [(''refresh_token'', ''rt1'')]) example_db)) = example_db
   \<and> snd (snd (verifyForgotPasswordTokenValidator example_deps
        (example_request [] [(''forgot_password_token'', ''fp1'')]) example_db)) = example_db
   \<and> fst (loginValidator example_deps
        (example_request [] [(''email'', ''a@x.com''), (''password'', ''Aa1!aaaa'')]) example_db)
     = Next
   \<and> fst (verifyForgotPasswordTokenValidator example_deps
        (example_request [] [(''forgot_password_token'', ''fp1'')]) example_db) \<noteq> Next"
proof -
  have "fst (loginValidator example_deps
        (example_request [] [(''email'', ''a@x.com''), (''password'', ''Aa1!aaaa'')]) example_db)
     = Next"
    unfolding loginValidator_def fst_validate loginValidator_errors
    by (simp add: failed_def example_defs string_defs strong_options_def)
  moreover have "fst (verifyForgotPasswordTokenValidator example_deps
        (example_request [] [(''forgot_password_token'', ''fp1'')]) example_db) \<noteq> Next"
    by (simp add: verifyForgotPasswordTokenValidator_def validate_trim_custom
        verifyForgotPasswordTokenValidator_custom_def users_findOne_def
        string_defs example_defs)
  ultimately show ?thesis
    using validators_leave_store_unchanged [of example_deps
        "example_request [] [(''email'', ''a@x.com''), (''password'', ''Aa1!aaaa'')]" example_db]
      validators_leave_store_unchanged [of example_deps
        "example_request [] [(''refresh_token'', ''rt1'')]" example_db]
      validators_leave_store_unchanged [of example_deps
        "example_request [] [(''forgot_password_token'', ''fp1'')]" example_db]
    by simp
qed

end
